theory Spec2Isabelle
  imports Main "HOL-Library.Word" "HOL-Library.Sublist"
begin

section \<open>JavaScript strings\<close>

text \<open>
  A JavaScript string is a sequence of UTF-16 code units. Literals of the source are
  ASCII; \<open>str\<close> embeds them.
\<close>

type_synonym jsstring = "16 word list"

definition str :: "string \<Rightarrow> jsstring" where
  "str s = map (\<lambda>c. of_nat (of_char c)) s"

text \<open>
  \<open>String.prototype.trim\<close> removes the code units of the ECMAScript productions
  WhiteSpace and LineTerminator from both ends.
\<close>

definition isWhiteSpace :: "16 word \<Rightarrow> bool" where
  "isWhiteSpace c \<longleftrightarrow>
     c \<in> {0x9, 0xA, 0xB, 0xC, 0xD, 0x20, 0xA0, 0x1680, 0x2028, 0x2029,
          0x202F, 0x205F, 0x3000, 0xFEFF}
     \<or> (0x2000 \<le> c \<and> c \<le> 0x200A)"

definition trim :: "jsstring \<Rightarrow> jsstring" where
  "trim s = rev (dropWhile isWhiteSpace (rev (dropWhile isWhiteSpace s)))"

text \<open>\<open>s.split(sep)\<close> for a separator of one code unit; the result is never empty.\<close>

fun split :: "jsstring \<Rightarrow> 16 word \<Rightarrow> jsstring list" where
  "split [] sep = [[]]"
| "split (c # cs) sep =
     (if c = sep then [] # split cs sep
      else (case split cs sep of
              [] \<Rightarrow> [[c]]
            | l # ls \<Rightarrow> (c # l) # ls))"

text \<open>\<open>s.indexOf(ch)\<close> for one code unit: the first position, or \<open>-1\<close>.\<close>

fun indexOf :: "jsstring \<Rightarrow> 16 word \<Rightarrow> int" where
  "indexOf [] ch = - 1"
| "indexOf (c # cs) ch =
     (if c = ch then 0
      else (let i = indexOf cs ch in if i = - 1 then - 1 else i + 1))"

text \<open>
  \<open>s.slice(start, end)\<close> and \<open>s.slice(start)\<close>: a negative index counts from the
  end, and every index is clamped into \<open>0..length\<close>.
\<close>

definition clampIndex :: "int \<Rightarrow> nat \<Rightarrow> nat" where
  "clampIndex i len = (if i < 0 then nat (max (int len + i) 0) else min (nat i) len)"

definition slice :: "jsstring \<Rightarrow> int \<Rightarrow> int \<Rightarrow> jsstring" where
  "slice s start fin =
     (let from = clampIndex start (length s);
          to = clampIndex fin (length s)
      in take (to - from) (drop from s))"

definition sliceFrom :: "jsstring \<Rightarrow> int \<Rightarrow> jsstring" where
  "sliceFrom s start = drop (clampIndex start (length s)) s"

definition startsWith :: "jsstring \<Rightarrow> jsstring \<Rightarrow> bool" where
  "startsWith s p = prefix p s"

definition endsWith :: "jsstring \<Rightarrow> jsstring \<Rightarrow> bool" where
  "endsWith s p = suffix p s"

text \<open>Truthiness of a value of type \<open>string | undefined\<close>: defined and not empty.\<close>

definition truthy :: "jsstring option \<Rightarrow> bool" where
  "truthy v = (case v of None \<Rightarrow> False | Some s \<Rightarrow> s \<noteq> [])"

text \<open>
  A property read \<open>obj[key]\<close> and the test \<open>key in obj\<close>, on a plain object and on
  \<open>process.env\<close>, follow the prototype chain: a key that is no own property of the
  object but names a member of \<open>Object.prototype\<close> yields that member, a function (for
  \<open>__proto__\<close> the prototype object), which is truthy and has none of the fields of a
  credential definition. \<open>Own v\<close> is a value of the declared type, \<open>Inherited k\<close> the
  member of \<open>Object.prototype\<close> named \<open>k\<close>.
\<close>

definition ObjectPrototype :: "jsstring list" where
  "ObjectPrototype =
     [str ''constructor'', str ''__defineGetter__'', str ''__defineSetter__'',
      str ''hasOwnProperty'', str ''__lookupGetter__'', str ''__lookupSetter__'',
      str ''isPrototypeOf'', str ''propertyIsEnumerable'', str ''toString'',
      str ''valueOf'', str ''__proto__'', str ''toLocaleString'']"

datatype 'a jsread = Own 'a | Inherited jsstring

definition readProperty :: "(jsstring \<rightharpoonup> 'a) \<Rightarrow> jsstring \<Rightarrow> 'a jsread option" where
  "readProperty own key =
     (case own key of
        Some v \<Rightarrow> Some (Own v)
      | None \<Rightarrow> if key \<in> set ObjectPrototype then Some (Inherited key) else None)"

definition hasProperty :: "(jsstring \<rightharpoonup> 'a) \<Rightarrow> jsstring \<Rightarrow> bool" where
  "hasProperty own key \<longleftrightarrow> own key \<noteq> None \<or> key \<in> set ObjectPrototype"

text \<open>
  The values that the variable \<open>value\<close> of \<open>get\<close> holds: a string, or an inherited
  member. Truthiness of such a value or \<open>undefined\<close>: every inherited member is truthy.
\<close>

type_synonym jsvalue = "jsstring jsread"

definition truthyValue :: "jsvalue option \<Rightarrow> bool" where
  "truthyValue v =
     (case v of None \<Rightarrow> False | Some (Own s) \<Rightarrow> s \<noteq> [] | Some (Inherited k) \<Rightarrow> True)"

text \<open>Number to string, for the non-negative integers of a template literal.\<close>

fun numToString :: "nat \<Rightarrow> jsstring" where
  "numToString n =
     (if n < 10 then [of_nat (48 + n)]
      else numToString (n div 10) @ [of_nat (48 + n mod 10)])"

text \<open>\<open>Array.prototype.join\<close>.\<close>

fun joinArray :: "jsstring list \<Rightarrow> jsstring \<Rightarrow> jsstring" where
  "joinArray [] sep = []"
| "joinArray [x] sep = x"
| "joinArray (x # y # ys) sep = x @ sep @ joinArray (y # ys) sep"

text \<open>Every \<open>throw new Error(message)\<close> of the source, and every error a library call raises.\<close>

datatype error = Error jsstring


section \<open>The service registry (registry/types.ts, registry/index.ts)\<close>

datatype CredentialType =
    api_key | api_secret | api_token | bearer_token | bot_token | app_token
  | personal_access_token | access_token | access_token_secret | access_key_id
  | secret_access_key | oauth_client_id | oauth_client_secret | oauth_refresh_token
  | client_id | client_secret | signing_secret | webhook_secret | account_id
  | org_id | project_id | zone_id | region | url | service_key | auth_token
  | phone_number

record Credential =
  description :: jsstring
  required :: bool
  ctype :: CredentialType
  pattern :: "jsstring option"
  setupUrl :: "jsstring option"
  setupSteps :: "jsstring list option"
  default_value :: "jsstring option"

text \<open>
  A \<open>Record<string, T>\<close> is the association list of the object's own properties, in the
  order \<open>Object.entries\<close> enumerates them. Of a service, the fields that the accessors
  read are kept.
\<close>

record Service =
  name :: jsstring
  description :: jsstring
  credentials :: "(jsstring \<times> Credential) list"

record ServiceRegistry =
  version :: jsstring
  services :: "(jsstring \<times> Service) list"

text \<open>
  \<open>registry\<close> is the constant the module imports from services.json; it is a parameter
  of every accessor here. \<open>ServiceId\<close> is a union of string literals, the ids of the
  registry's services, that exists at compile time only; none of them names a member of
  \<open>Object.prototype\<close>, so \<open>registry.services[serviceId]\<close> is a read of own properties.
  A credential key is any string, and \<open>credentials[credentialKey]\<close> is a read through
  the prototype chain.
\<close>

type_synonym ServiceId = jsstring

definition getService :: "ServiceRegistry \<Rightarrow> ServiceId \<Rightarrow> Service option" where
  "getService registry serviceId = map_of (services registry) serviceId"

definition getCredential ::
  "ServiceRegistry \<Rightarrow> ServiceId \<Rightarrow> jsstring \<Rightarrow> Credential jsread option" where
  "getCredential registry serviceId credentialKey =
     (case map_of (services registry) serviceId of
        None \<Rightarrow> None
      | Some service \<Rightarrow> readProperty (map_of (Service.credentials service)) credentialKey)"

definition getRequiredCredentials :: "ServiceRegistry \<Rightarrow> ServiceId \<Rightarrow> jsstring list" where
  "getRequiredCredentials registry serviceId =
     (case map_of (services registry) serviceId of
        None \<Rightarrow> []
      | Some service \<Rightarrow>
          map fst (filter (\<lambda>(_, cred). required cred) (Service.credentials service)))"

text \<open>
  \<open>new RegExp(pattern).test(value)\<close> is the JavaScript built-in, a parameter of the
  validator: \<open>test pattern value\<close> is its result, the conversion of \<open>value\<close> to a
  string included. Patterns of the registry are taken to compile.
\<close>

type_synonym RegExp = "jsstring \<Rightarrow> jsvalue \<Rightarrow> bool"

record ValidationResult =
  valid :: bool
  error :: "jsstring option"

text \<open>
  For an inherited member, \<open>credential\<close> is truthy and \<open>credential.pattern\<close> is
  \<open>undefined\<close>.
\<close>

definition validateCredential ::
  "RegExp \<Rightarrow> ServiceRegistry \<Rightarrow> ServiceId \<Rightarrow> jsstring \<Rightarrow> jsvalue \<Rightarrow> ValidationResult" where
  "validateCredential test registry serviceId credentialKey value =
     (case getCredential registry serviceId credentialKey of
        None \<Rightarrow>
          \<lparr>valid = False,
           error = Some (str ''Unknown credential: '' @ credentialKey
                         @ str '' for service: '' @ serviceId)\<rparr>
      | Some (Inherited member) \<Rightarrow> \<lparr>valid = True, error = None\<rparr>
      | Some (Own credential) \<Rightarrow>
          if \<not> truthy (pattern credential) then \<lparr>valid = True, error = None\<rparr>
          else (case pattern credential of
                  None \<Rightarrow> \<lparr>valid = True, error = None\<rparr>
                | Some p \<Rightarrow>
                    if \<not> test p value then
                      \<lparr>valid = False,
                       error = Some (str ''Invalid format for '' @ credentialKey
                                     @ str ''. Expected pattern: '' @ p)\<rparr>
                    else \<lparr>valid = True, error = None\<rparr>))"

record SetupInstructions =
  url :: "jsstring option"
  steps :: "jsstring list option"

definition getSetupInstructions ::
  "ServiceRegistry \<Rightarrow> ServiceId \<Rightarrow> jsstring \<Rightarrow> SetupInstructions" where
  "getSetupInstructions registry serviceId credentialKey =
     (let credential = getCredential registry serviceId credentialKey
      in \<lparr>url = (case credential of Some (Own c) \<Rightarrow> setupUrl c | _ \<Rightarrow> None),
          steps = (case credential of Some (Own c) \<Rightarrow> setupSteps c | _ \<Rightarrow> None)\<rparr>)"

text \<open>The loop of \<open>findServiceByCredential\<close> over \<open>Object.entries(registry.services)\<close>.\<close>

fun findServiceIn :: "(jsstring \<times> Service) list \<Rightarrow> jsstring \<Rightarrow> ServiceId option" where
  "findServiceIn [] credentialKey = None"
| "findServiceIn ((serviceId, service) # rest) credentialKey =
     (if hasProperty (map_of (Service.credentials service)) credentialKey then Some serviceId
      else findServiceIn rest credentialKey)"

definition findServiceByCredential :: "ServiceRegistry \<Rightarrow> jsstring \<Rightarrow> ServiceId option" where
  "findServiceByCredential registry credentialKey =
     findServiceIn (services registry) credentialKey"


section \<open>The Vault\<close>

record VaultOptions =
  envPath :: "jsstring option"
  throwOnMissing :: "bool option"
  validate :: "bool option"

record RequiredVaultOptions =
  envPath :: jsstring
  throwOnMissing :: bool
  validate :: bool

record Vault =
  credentials :: "jsstring \<rightharpoonup> jsstring"
  options :: RequiredVaultOptions

text \<open>
  What the class reads from its surroundings is a parameter: the variables of the
  process environment (the own properties of \<open>process.env\<close>, a map from names to
  strings), and of Node's \<open>fs\<close> the two calls the class makes. \<open>this.credentials\<close> is a
  \<open>Map\<close>, whose \<open>get\<close> and \<open>has\<close> see its entries only.
\<close>

type_synonym env = "jsstring \<rightharpoonup> jsstring"

record fs =
  existsSync :: "jsstring \<Rightarrow> bool"
  readFileSync :: "jsstring \<Rightarrow> error + jsstring"

subsection \<open>get, getFor, has, set\<close>

text \<open>The message of the error that \<open>get\<close> throws for a missing credential.\<close>

definition setupStepLines :: "jsstring list \<Rightarrow> jsstring list" where
  "setupStepLines ss =
     map (\<lambda>(i, s). str ''  '' @ numToString (i + 1) @ str ''. '' @ s) (enumerate 0 ss)"

definition notFoundMessage :: "ServiceRegistry \<Rightarrow> jsstring \<Rightarrow> jsstring" where
  "notFoundMessage registry key =
     (case findServiceByCredential registry key of
        None \<Rightarrow> str ''Credential not found: '' @ key
      | Some serviceId \<Rightarrow>
          if serviceId = [] then str ''Credential not found: '' @ key
          else
            (let instructions = getSetupInstructions registry serviceId key;
                 message = str ''Credential not found: '' @ key;
                 message = (if truthy (url instructions)
                            then message @ [0xA, 0xA] @ str ''Get it here: ''
                                   @ (case url instructions of None \<Rightarrow> [] | Some u \<Rightarrow> u)
                            else message);
                 message = (case steps instructions of
                              None \<Rightarrow> message
                            | Some ss \<Rightarrow>
                                message @ [0xA, 0xA] @ str ''Setup steps:'' @ [0xA]
                                  @ joinArray (setupStepLines ss) [0xA])
             in message))"

text \<open>
  The lines that the validation step of \<open>get\<close> writes with \<open>console.warn\<close> for a
  truthy value.
\<close>

definition validationWarnings ::
  "RegExp \<Rightarrow> ServiceRegistry \<Rightarrow> jsstring \<Rightarrow> jsvalue \<Rightarrow> jsstring list" where
  "validationWarnings test registry key value =
     (case findServiceByCredential registry key of
        None \<Rightarrow> []
      | Some serviceId \<Rightarrow>
          if serviceId = [] then []
          else
            (let result = validateCredential test registry serviceId key value
             in if \<not> valid result
                then [str ''Warning: ''
                        @ (case error result of None \<Rightarrow> str ''undefined'' | Some e \<Rightarrow> e)]
                else []))"

text \<open>
  \<open>get\<close> returns the value together with the lines it wrote to the console, or the
  error it throws.
\<close>

definition get ::
  "RegExp \<Rightarrow> ServiceRegistry \<Rightarrow> env \<Rightarrow> Vault \<Rightarrow> jsstring \<Rightarrow> error + jsvalue \<times> jsstring list" where
  "get test registry penv this key =
     (let value = map_option Own (credentials this key);
          value = (if \<not> truthyValue value then readProperty penv key else value)
      in if \<not> truthyValue value \<and> throwOnMissing (options this)
         then Inl (Error (notFoundMessage registry key))
         else
           (let warnings =
                  (case value of
                     None \<Rightarrow> []
                   | Some v \<Rightarrow>
                       if truthyValue value \<and> validate (options this)
                       then validationWarnings test registry key v
                       else [])
            in Inr (case value of None \<Rightarrow> Own [] | Some v \<Rightarrow> v, warnings)))"

definition getFor ::
  "RegExp \<Rightarrow> ServiceRegistry \<Rightarrow> env \<Rightarrow> Vault \<Rightarrow> ServiceId \<Rightarrow> jsstring
     \<Rightarrow> error + jsvalue \<times> jsstring list" where
  "getFor test registry penv this serviceId key =
     (case getCredential registry serviceId key of
        None \<Rightarrow>
          Inl (Error (str ''Unknown credential '' @ key @ str '' for service '' @ serviceId))
      | Some credential \<Rightarrow> get test registry penv this key)"

definition has :: "env \<Rightarrow> Vault \<Rightarrow> jsstring \<Rightarrow> bool" where
  "has penv this key \<longleftrightarrow> credentials this key \<noteq> None \<or> hasProperty penv key"

definition set_credential :: "Vault \<Rightarrow> jsstring \<Rightarrow> jsstring \<Rightarrow> Vault" where
  "set_credential this key value = this\<lparr>credentials := (credentials this)(key \<mapsto> value)\<rparr>"

subsection \<open>loadEnv: the env file parser\<close>

text \<open>The quote removal of \<open>loadEnv\<close>, applied to the trimmed text after the first \<open>=\<close>.\<close>

definition removeQuotes :: "jsstring \<Rightarrow> jsstring" where
  "removeQuotes value =
     (if (startsWith value [0x22] \<and> endsWith value [0x22])
         \<or> (startsWith value [0x27] \<and> endsWith value [0x27])
      then slice value 1 (- 1)
      else value)"

text \<open>One iteration of the loop over the lines, on the credential map.\<close>

definition loadLine :: "(jsstring \<rightharpoonup> jsstring) \<Rightarrow> jsstring \<Rightarrow> (jsstring \<rightharpoonup> jsstring)" where
  "loadLine creds line =
     (let trimmed = trim line
      in if trimmed = [] \<or> startsWith trimmed [0x23] then creds
         else
           (let eqIndex = indexOf trimmed 0x3D
            in if eqIndex = - 1 then creds
               else
                 (let key = trim (slice trimmed 0 eqIndex);
                      value = trim (sliceFrom trimmed (eqIndex + 1));
                      value = removeQuotes value
                  in creds(key \<mapsto> value))))"

definition parseEnv :: "(jsstring \<rightharpoonup> jsstring) \<Rightarrow> jsstring \<Rightarrow> (jsstring \<rightharpoonup> jsstring)" where
  "parseEnv creds content = foldl loadLine creds (split content 0xA)"

definition loadEnv :: "fs \<Rightarrow> Vault \<Rightarrow> error + Vault" where
  "loadEnv fsys this =
     (let envPath = envPath (options this)
      in if \<not> existsSync fsys envPath then Inr this
         else (case readFileSync fsys envPath of
                 Inl e \<Rightarrow> Inl e
               | Inr content \<Rightarrow>
                   Inr (this\<lparr>credentials := parseEnv (credentials this) content\<rparr>)))"

subsection \<open>findEnvFile: the env file locator\<close>

text \<open>
  \<open>path.dirname\<close> of Node's POSIX \<open>path\<close> module. \<open>dirnameEnd\<close> is its loop
  \<open>for (i = path.length - 1; i >= 1; --i)\<close>, which looks for the last \<open>/\<close> that is
  followed by a character other than \<open>/\<close>; its result is \<open>end\<close>.
\<close>

fun dirnameEnd :: "jsstring \<Rightarrow> nat \<Rightarrow> bool \<Rightarrow> int" where
  "dirnameEnd path 0 matchedSlash = - 1"
| "dirnameEnd path (Suc i) matchedSlash =
     (if path ! Suc i = 0x2F
      then (if \<not> matchedSlash then int (Suc i) else dirnameEnd path i matchedSlash)
      else dirnameEnd path i False)"

definition dirname :: "jsstring \<Rightarrow> jsstring" where
  "dirname path =
     (if length path = 0 then str ''.''
      else
        (let hasRoot = (path ! 0 = 0x2F);
             fin = dirnameEnd path (length path - 1) True
         in if fin = - 1 then (if hasRoot then str ''/'' else str ''.'')
            else if hasRoot \<and> fin = 1 then str ''//''
            else slice path 0 fin))"

text \<open>
  The \<open>while (true)\<close> loop of \<open>findEnvFile\<close>, from the directory \<open>dir\<close>; \<open>None\<close> is
  the loop that never returns. \<open>path.join\<close> and \<open>process.cwd()\<close> are parameters.
\<close>

partial_function (option) findEnvFileFrom ::
  "(jsstring \<Rightarrow> jsstring \<Rightarrow> jsstring) \<Rightarrow> fs \<Rightarrow> jsstring \<Rightarrow> jsstring \<Rightarrow> jsstring option" where
  "findEnvFileFrom join fsys cwd dir =
     (if existsSync fsys (join dir (str ''.env'')) then Some (join dir (str ''.env''))
      else if dirname dir = dir then Some (join cwd (str ''.env''))
      else findEnvFileFrom join fsys cwd (dirname dir))"

definition findEnvFile ::
  "(jsstring \<Rightarrow> jsstring \<Rightarrow> jsstring) \<Rightarrow> fs \<Rightarrow> jsstring \<Rightarrow> jsstring option" where
  "findEnvFile join fsys cwd = findEnvFileFrom join fsys cwd cwd"

subsection \<open>The constructor\<close>

text \<open>
  \<open>new Vault(options)\<close>: \<open>None\<close> when the locator does not return, otherwise the error
  thrown by the file read or the new instance. \<open>loadFromEnv\<close> has an empty body.
\<close>

definition new_Vault ::
  "(jsstring \<Rightarrow> jsstring \<Rightarrow> jsstring) \<Rightarrow> fs \<Rightarrow> jsstring \<Rightarrow> VaultOptions \<Rightarrow> (error + Vault) option" where
  "new_Vault join fsys cwd opts =
     (case (case VaultOptions.envPath opts of
              Some p \<Rightarrow> Some p
            | None \<Rightarrow> findEnvFile join fsys cwd) of
        None \<Rightarrow> None
      | Some p \<Rightarrow>
          Some (loadEnv fsys
            \<lparr>credentials = Map.empty,
             options =
               \<lparr>envPath = p,
                throwOnMissing =
                  (case VaultOptions.throwOnMissing opts of None \<Rightarrow> True | Some b \<Rightarrow> b),
                validate =
                  (case VaultOptions.validate opts of None \<Rightarrow> True | Some b \<Rightarrow> b)\<rparr>\<rparr>))"

section \<open>Notions of the specification\<close>

text \<open>
  The source throws plain \<open>Error\<close> objects. The condition \<open>CredentialNotFound\<close> is the
  error whose message starts with \<open>Credential not found: \<close> and the key;
  \<open>UnknownCredential\<close> is the error that \<open>getFor\<close> builds from the key and the service.
\<close>

definition isCredentialNotFound :: "jsstring \<Rightarrow> error + 'a \<Rightarrow> bool" where
  "isCredentialNotFound key r =
     (case r of
        Inl (Error m) \<Rightarrow> prefix (str ''Credential not found: '' @ key) m
      | Inr _ \<Rightarrow> False)"

definition isUnknownCredential :: "ServiceId \<Rightarrow> jsstring \<Rightarrow> error + 'a \<Rightarrow> bool" where
  "isUnknownCredential serviceId key r =
     (r = Inl (Error (str ''Unknown credential '' @ key @ str '' for service '' @ serviceId)))"

text \<open>
  The definition that the registry holds for a key of a service: the entry of the
  service's \<open>credentials\<close>, an own property.
\<close>

definition credentialDefinition ::
  "ServiceRegistry \<Rightarrow> ServiceId \<Rightarrow> jsstring \<Rightarrow> Credential option" where
  "credentialDefinition registry serviceId key =
     (case map_of (services registry) serviceId of
        None \<Rightarrow> None
      | Some service \<Rightarrow> map_of (Service.credentials service) key)"

text \<open>The quantity that decreases along the locator's walk to the parent directory.\<close>

definition dirMeasure :: "jsstring \<Rightarrow> nat" where
  "dirMeasure p = (if p = str ''.'' then 0 else length p + 1)"


section \<open>Example data\<close>

text \<open>
  On a pattern without syntax characters (none of \<open>^ $ \ . * + ? ( ) [ ] { } |\<close>),
  \<open>new RegExp(p).test(v)\<close> searches the string of \<open>v\<close> for the text \<open>p\<close>.
  \<open>literal_test\<close> is the built-in on such patterns; it is evaluated on no other
  pattern. \<open>memberText\<close> is the string of an inherited member: the source text of a
  native function, and \<open>[object Object]\<close> for the prototype object. The function under
  \<open>constructor\<close> is named \<open>Object\<close>.
\<close>

definition memberText :: "jsstring \<Rightarrow> jsstring" where
  "memberText k =
     (if k = str ''__proto__'' then str ''[object Object]''
      else str ''function '' @ (if k = str ''constructor'' then str ''Object'' else k)
             @ str ''() { [native code] }'')"

definition literal_test :: RegExp where
  "literal_test p v = sublist p (case v of Own s \<Rightarrow> s | Inherited k \<Rightarrow> memberText k)"

text \<open>A registry in the shape of services.json, with one service.\<close>

definition demo_registry :: ServiceRegistry where
  "demo_registry =
     \<lparr>version = str ''1.0.0'',
      services =
        [(str ''demo'',
          \<lparr>name = str ''Demo'',
           description = str ''A demo service'',
           Service.credentials =
             [(str ''DEMO_KEY'',
               \<lparr>Credential.description = str ''API key'', required = True, ctype = api_key,
                pattern = Some (str ''abc''),
                setupUrl = Some (str ''https://demo.example/keys''),
                setupSteps = Some [str ''Sign in'', str ''Copy the key''],
                default_value = None\<rparr>),
              (str ''DEMO_ID'',
               \<lparr>Credential.description = str ''Account id'', required = False,
                ctype = account_id, pattern = None, setupUrl = None, setupSteps = None,
                default_value = None\<rparr>)]\<rparr>)]\<rparr>"

text \<open>
  A file system with the one file \<open>/w/.env\<close>, whose three lines are \<open>X=z\<close>, \<open>EMPTY=\<close>
  and \<open>DEMO_KEY=zzz\<close>; \<open>path.join\<close> on a directory and a file name that need no
  normalisation; a process environment; and the instance that \<open>new Vault()\<close> builds
  from the working directory \<open>/w/skill\<close>.
\<close>

definition demo_env_file :: jsstring where
  "demo_env_file = str ''X=z'' @ [0xA] @ str ''EMPTY='' @ [0xA] @ str ''DEMO_KEY=zzz''"

definition demo_fs :: fs where
  "demo_fs =
     \<lparr>existsSync = (\<lambda>p. p = str ''/w/.env''),
      readFileSync = (\<lambda>p. if p = str ''/w/.env'' then Inr demo_env_file
                           else Inl (Error (str ''ENOENT'')))\<rparr>"

definition demo_join :: "jsstring \<Rightarrow> jsstring \<Rightarrow> jsstring" where
  "demo_join dir file = dir @ [0x2F] @ file"

definition demo_env :: env where
  "demo_env =
     [str ''X'' \<mapsto> str ''e'', str ''EMPTY'' \<mapsto> str ''e'', str ''DEMO_KEY'' \<mapsto> str ''abc'',
      str ''NOT_A_REAL_KEY'' \<mapsto> str ''n'']"

definition demo_vault :: Vault where
  "demo_vault =
     \<lparr>credentials = [str ''X'' \<mapsto> str ''z'', str ''EMPTY'' \<mapsto> [], str ''DEMO_KEY'' \<mapsto> str ''zzz''],
      options = \<lparr>envPath = str ''/w/.env'', throwOnMissing = True, validate = True\<rparr>\<rparr>"


section \<open>String helpers\<close>

lemma str_dot: "str ''.'' = [0x2E]"
  by (simp add: str_def)

lemma str_slash: "str ''/'' = [0x2F]"
  by (simp add: str_def)

lemma str_slash2: "str ''//'' = [0x2F, 0x2F]"
  by (simp add: str_def)

lemma startsWith_single: "startsWith s [c] \<longleftrightarrow> s \<noteq> [] \<and> hd s = c"
  by (cases s) (auto simp add: startsWith_def)

lemma endsWith_single: "endsWith s [c] \<longleftrightarrow> s \<noteq> [] \<and> last s = c"
  by (cases s rule: rev_cases) (auto simp add: endsWith_def)

lemma slice_1_m1: "slice s 1 (- 1) = butlast (tl s)"
proof (cases s)
  case Nil
  then show ?thesis by (simp add: slice_def clampIndex_def)
next
  case (Cons c cs)
  then show ?thesis
    by (simp add: slice_def clampIndex_def Let_def butlast_conv_take)
qed


section \<open>The env file parser\<close>

text \<open>
  What the quote removal computes: when the value is not empty and its first and last
  code units are the same quote character, the first and the last code unit go;
  otherwise the value stays.
\<close>

lemma removeQuotes_eq:
  "removeQuotes value =
     (if value \<noteq> [] \<and> hd value = last value \<and> hd value \<in> {0x22, 0x27}
      then butlast (tl value) else value)"
  by (auto simp add: removeQuotes_def startsWith_single endsWith_single slice_1_m1)

text \<open>
  A value wrapped in a pair of the same quote character loses exactly that pair, and
  what stands between the two is kept as it is, backslashes and further quotes included.
\<close>

lemma removeQuotes_wrapped:
  "q \<in> {0x22, 0x27} \<Longrightarrow> removeQuotes (q # body @ [q]) = body"
  by (auto simp add: removeQuotes_eq butlast_append)

lemma removeQuotes_unwrapped:
  "\<not> (hd value = last value \<and> hd value \<in> {0x22, 0x27}) \<Longrightarrow> removeQuotes value = value"
  by (auto simp add: removeQuotes_eq)

lemmas parse_simps =
  removeQuotes_eq parseEnv_def loadLine_def str_def trim_def isWhiteSpace_def
  sliceFrom_def slice_def startsWith_single clampIndex_def Let_def

text \<open>
  The file of the five lines \<open>K="v"\<close>, \<open>K2='v2'\<close>, \<open># comment\<close>, an empty line and
  \<open>K3=v3\<close> parses to the map of \<open>K\<close>, \<open>K2\<close> and \<open>K3\<close> to \<open>v\<close>, \<open>v2\<close> and \<open>v3\<close>.
\<close>

lemma parseEnv_round_trip:
  "parseEnv Map.empty
     (str ''K='' @ [0x22] @ str ''v'' @ [0x22, 0xA]
      @ str ''K2='' @ [0x27] @ str ''v2'' @ [0x27, 0xA]
      @ str ''# comment'' @ [0xA]
      @ [0xA]
      @ str ''K3=v3'')
   = [str ''K'' \<mapsto> str ''v'', str ''K2'' \<mapsto> str ''v2'', str ''K3'' \<mapsto> str ''v3'']"
  by (simp add: parse_simps)

text \<open>A later line overwrites an earlier one for the same key.\<close>

lemma parseEnv_duplicate_key:
  "parseEnv Map.empty (str ''A=1'' @ [0xA] @ str ''A=2'') = [str ''A'' \<mapsto> str ''2'']"
  by (simp add: parse_simps)

text \<open>
  Claim C5. The parser strips one outer pair of matching quotes from a raw value, and
  only when the value is wrapped in such a pair. The code also empties the raw value
  that is one lone quote character, which no pair wraps: the line \<open>K="\<close> stores the
  empty string under \<open>K\<close>. On every other value the code does what the claim says
  (\<open>removeQuotes_eq\<close>, \<open>removeQuotes_wrapped\<close>, \<open>parseEnv_round_trip\<close>).
\<close>

theorem loadEnv_lone_quote:
  "removeQuotes [0x22] = []
   \<and> removeQuotes [0x27] = []
   \<and> parseEnv Map.empty (str ''K='' @ [0x22]) (str ''K'') = Some []"
  by (simp add: parse_simps)



section \<open>The validator\<close>

text \<open>
  What \<open>getCredential\<close> returns, from the definitions that the registry holds: the
  definition when there is one; nothing when there is none and the key names no member
  of \<open>Object.prototype\<close>; the inherited member when there is none and the key names one.
\<close>

lemma getCredential_defined:
  "credentialDefinition registry serviceId key = Some c \<Longrightarrow>
     getCredential registry serviceId key = Some (Own c)"
  by (auto simp add: credentialDefinition_def getCredential_def readProperty_def
      split: option.splits)

lemma getCredential_undefined:
  "credentialDefinition registry serviceId key = None \<Longrightarrow> key \<notin> set ObjectPrototype \<Longrightarrow>
     getCredential registry serviceId key = None"
  by (auto simp add: credentialDefinition_def getCredential_def readProperty_def
      split: option.splits)

lemma getCredential_inherited:
  "map_of (services registry) serviceId = Some service \<Longrightarrow>
   credentialDefinition registry serviceId key = None \<Longrightarrow> key \<in> set ObjectPrototype \<Longrightarrow>
     getCredential registry serviceId key = Some (Inherited key)"
  by (auto simp add: credentialDefinition_def getCredential_def readProperty_def
      split: option.splits)

text \<open>
  Claim C3, as the code has it by design. For every service id, key and candidate
  value: with no definition of the key for the service, and a key that names no member
  of \<open>Object.prototype\<close>, the validator fails with the diagnostic
  \<open>Unknown credential: <key> for service: <service>\<close>; with a definition whose pattern
  is absent (or the empty string) it succeeds; otherwise it succeeds if and only if
  \<open>new RegExp(pattern).test(value)\<close> holds, and on failure the diagnostic is
  \<open>Invalid format for <key>. Expected pattern: <pattern>\<close>.
\<close>

theorem validateCredential_outcomes:
  "(credentialDefinition registry serviceId key = None \<and> key \<notin> set ObjectPrototype \<longrightarrow>
      validateCredential test registry serviceId key v
        = \<lparr>valid = False,
           error = Some (str ''Unknown credential: '' @ key
                         @ str '' for service: '' @ serviceId)\<rparr>)
 \<and> (\<forall>c. credentialDefinition registry serviceId key = Some c \<and> \<not> truthy (pattern c) \<longrightarrow>
      validateCredential test registry serviceId key v = \<lparr>valid = True, error = None\<rparr>)
 \<and> (\<forall>c p. credentialDefinition registry serviceId key = Some c \<and> pattern c = Some p
        \<and> p \<noteq> [] \<longrightarrow>
      (valid (validateCredential test registry serviceId key v) \<longleftrightarrow> test p v)
      \<and> error (validateCredential test registry serviceId key v)
          = (if test p v then None
             else Some (str ''Invalid format for '' @ key
                        @ str ''. Expected pattern: '' @ p)))"
proof (intro conjI allI impI)
  assume "credentialDefinition registry serviceId key = None \<and> key \<notin> set ObjectPrototype"
  then have "getCredential registry serviceId key = None"
    by (simp add: getCredential_undefined)
  then show "validateCredential test registry serviceId key v
        = \<lparr>valid = False,
           error = Some (str ''Unknown credential: '' @ key
                         @ str '' for service: '' @ serviceId)\<rparr>"
    by (simp add: validateCredential_def)
next
  fix c
  assume "credentialDefinition registry serviceId key = Some c \<and> \<not> truthy (pattern c)"
  then show "validateCredential test registry serviceId key v = \<lparr>valid = True, error = None\<rparr>"
    by (simp add: validateCredential_def getCredential_defined)
next
  fix c p
  assume h: "credentialDefinition registry serviceId key = Some c \<and> pattern c = Some p
        \<and> p \<noteq> []"
  then have g: "getCredential registry serviceId key = Some (Own c)"
    by (simp add: getCredential_defined)
  from h show "valid (validateCredential test registry serviceId key v) \<longleftrightarrow> test p v"
    by (simp add: validateCredential_def g truthy_def)
  from h show "error (validateCredential test registry serviceId key v)
          = (if test p v then None
             else Some (str ''Invalid format for '' @ key
                        @ str ''. Expected pattern: '' @ p))"
    by (simp add: validateCredential_def g truthy_def)
qed

lemmas demo_simps =
  credentialDefinition_def getCredential_def readProperty_def hasProperty_def
  ObjectPrototype_def demo_registry_def truthy_def literal_test_def str_def
  sublist_Cons_right

theorem validateCredential_outcomes_witness:
  "validateCredential literal_test demo_registry (str ''demo'') (str ''NOPE'')
       (Own (str ''abc''))
     = \<lparr>valid = False, error = Some (str ''Unknown credential: NOPE for service: demo'')\<rparr>
   \<and> validateCredential literal_test demo_registry (str ''demo'') (str ''DEMO_ID'')
       (Own (str ''zzz''))
     = \<lparr>valid = True, error = None\<rparr>
   \<and> valid (validateCredential literal_test demo_registry (str ''demo'') (str ''DEMO_KEY'')
        (Own (str ''abc'')))
   \<and> error (validateCredential literal_test demo_registry (str ''demo'') (str ''DEMO_KEY'')
        (Own (str ''zzz'')))
     = Some (str ''Invalid format for DEMO_KEY. Expected pattern: abc'')"
  using
    validateCredential_outcomes [of demo_registry "str ''demo''" "str ''NOPE''" literal_test
      "Own (str ''abc'')"]
    validateCredential_outcomes [of demo_registry "str ''demo''" "str ''DEMO_ID''" literal_test
      "Own (str ''zzz'')"]
    validateCredential_outcomes [of demo_registry "str ''demo''" "str ''DEMO_KEY''" literal_test
      "Own (str ''abc'')"]
    validateCredential_outcomes [of demo_registry "str ''demo''" "str ''DEMO_KEY''" literal_test
      "Own (str ''zzz'')"]
  by (simp add: demo_simps)

text \<open>
  Claim C3 as stated fails. The pattern \<open>abc\<close> has no syntax character, so the only
  value that matches it as a whole is \<open>abc\<close>; the validator accepts \<open>xabcx\<close>, in which
  the pattern occurs.
\<close>

theorem validateCredential_searches_pattern:
  "valid (validateCredential literal_test demo_registry (str ''demo'') (str ''DEMO_KEY'')
      (Own (str ''xabcx'')))
   \<and> str ''xabcx'' \<noteq> str ''abc''"
  by (simp add: validateCredential_def demo_simps)

text \<open>
  For a key that names a member of \<open>Object.prototype\<close> and has no definition, the
  validator reads the inherited member and succeeds: \<open>toString\<close> has no definition for
  the service \<open>demo\<close>, and every value is accepted for it.
\<close>

lemma validateCredential_inherited_name:
  "credentialDefinition demo_registry (str ''demo'') (str ''toString'') = None
   \<and> validateCredential test demo_registry (str ''demo'') (str ''toString'') v
       = \<lparr>valid = True, error = None\<rparr>"
  by (simp add: validateCredential_def credentialDefinition_def getCredential_def
      readProperty_def ObjectPrototype_def demo_registry_def str_def)


section \<open>The resolver\<close>

lemma notFoundMessage_prefix:
  "prefix (str ''Credential not found: '' @ key) (notFoundMessage registry key)"
  by (simp add: notFoundMessage_def Let_def split: option.split)

lemma truthyValue_Own: "truthyValue (map_option Own x) = truthy x"
  by (cases x) (simp_all add: truthyValue_def truthy_def)

lemma readProperty_variable: "penv key = Some v \<Longrightarrow> readProperty penv key = Some (Own v)"
  by (simp add: readProperty_def)

lemma readProperty_absent:
  "penv key = None \<Longrightarrow> key \<notin> set ObjectPrototype \<Longrightarrow> readProperty penv key = None"
  by (simp add: readProperty_def)

lemma get_truthy_map:
  assumes "credentials this key = Some v" and "v \<noteq> []"
  shows "get test registry penv this key =
           Inr (Own v,
                if validate (options this) then validationWarnings test registry key (Own v)
                else [])"
  using assms by (simp add: get_def truthyValue_def Let_def)

lemma get_fallback:
  assumes "\<not> truthy (credentials this key)" and "readProperty penv key = Some val"
    and "truthyValue (Some val)"
  shows "get test registry penv this key =
           Inr (val,
                if validate (options this) then validationWarnings test registry key val
                else [])"
  using assms by (simp add: get_def truthyValue_Own Let_def)

lemma get_missing:
  assumes "\<not> truthy (credentials this key)" and "\<not> truthyValue (readProperty penv key)"
  shows "get test registry penv this key =
           (if throwOnMissing (options this) then Inl (Error (notFoundMessage registry key))
            else Inr (Own [], []))"
  using assms
  by (auto simp add: get_def truthyValue_Own truthyValue_def truthy_def Let_def
      split: option.splits jsread.splits)

lemma validateCredential_error:
  "\<not> valid (validateCredential test registry serviceId key v) \<Longrightarrow>
     error (validateCredential test registry serviceId key v) \<noteq> None"
  by (auto simp add: validateCredential_def split: option.splits if_splits jsread.splits)

lemmas vault_simps =
  demo_vault_def demo_env_def demo_registry_def literal_test_def str_def truthy_def
  truthyValue_def readProperty_def hasProperty_def ObjectPrototype_def
  getCredential_def findServiceByCredential_def validationWarnings_def
  validateCredential_def sublist_Cons_right Let_def

text \<open>
  The instance of the examples is the one the constructor builds: the locator finds
  \<open>/w/.env\<close> one directory above \<open>/w/skill\<close>, and the parser reads its three lines.
\<close>

lemma parseEnv_demo:
  "parseEnv Map.empty demo_env_file = credentials demo_vault"
  by (simp add: demo_env_file_def demo_vault_def parse_simps)

text \<open>
  Claim C1, as the code has it. For every key whose value in the in-memory map is a
  non-empty string, \<open>get\<close> returns that value, whatever the process environment holds;
  the only other effect is the warning of the format validation.
\<close>

theorem get_prefers_nonempty_map_value:
  assumes "credentials this key = Some v" and "v \<noteq> []"
  shows "get test registry penv this key =
           Inr (Own v,
                if validate (options this) then validationWarnings test registry key (Own v)
                else [])"
  using assms by (rule get_truthy_map)

theorem get_prefers_nonempty_map_value_witness:
  "demo_env (str ''DEMO_KEY'') = Some (str ''abc'')
   \<and> get literal_test demo_registry demo_env demo_vault (str ''DEMO_KEY'')
       = Inr (Own (str ''zzz''),
              [str ''Warning: Invalid format for DEMO_KEY. Expected pattern: abc''])"
  using get_prefers_nonempty_map_value
    [of demo_vault "str ''DEMO_KEY''" "str ''zzz''" literal_test demo_registry demo_env]
  by (simp add: vault_simps)

text \<open>
  Claim C1 as stated fails for a key that is present in the map with the empty string:
  the file line \<open>EMPTY=\<close> puts \<open>EMPTY\<close> into the map, and \<open>get\<close> returns the value of
  the process environment, not the map's.
\<close>

theorem get_empty_map_value_falls_back:
  "credentials demo_vault (str ''EMPTY'') = Some []
   \<and> demo_env (str ''EMPTY'') = Some (str ''e'')
   \<and> get literal_test demo_registry demo_env demo_vault (str ''EMPTY'')
       = Inr (Own (str ''e''), [])"
  by (simp add: get_def vault_simps)

text \<open>
  For a key that is absent from the map and from the environment, and that names no
  member of \<open>Object.prototype\<close>, \<open>get\<close> raises CredentialNotFound when \<open>throwOnMissing\<close>
  is true, and returns the empty string, with no warning, when it is false.
\<close>

lemma get_absent_key:
  assumes "credentials this key = None" and "penv key = None"
    and "key \<notin> set ObjectPrototype"
  shows "(throwOnMissing (options this) \<longrightarrow>
            get test registry penv this key = Inl (Error (notFoundMessage registry key))
            \<and> isCredentialNotFound key (get test registry penv this key))
       \<and> (\<not> throwOnMissing (options this) \<longrightarrow>
            get test registry penv this key = Inr (Own [], []))"
  using assms notFoundMessage_prefix [of key registry]
  by (simp add: get_missing readProperty_absent truthy_def truthyValue_def
      isCredentialNotFound_def)

text \<open>
  Claim C2. For every key absent from both the in-memory map and the process
  environment, \<open>get\<close> raises CredentialNotFound when \<open>throwOnMissing\<close> is true and
  returns the empty string when it is false. The code does so for the keys that name
  no member of \<open>Object.prototype\<close> (\<open>get_absent_key\<close>). For \<open>toString\<close>, absent from
  the map and from the environment, \<open>process.env[key]\<close> is the inherited function:
  \<open>get\<close> returns it, under either setting of \<open>throwOnMissing\<close>.
\<close>

theorem get_inherited_name:
  "credentials demo_vault (str ''toString'') = None
   \<and> demo_env (str ''toString'') = None
   \<and> throwOnMissing (options demo_vault)
   \<and> get literal_test demo_registry demo_env demo_vault (str ''toString'')
       = Inr (Inherited (str ''toString''), [])
   \<and> get literal_test demo_registry demo_env
        (demo_vault\<lparr>options := (options demo_vault)\<lparr>throwOnMissing := False\<rparr>\<rparr>)
        (str ''toString'')
       = Inr (Inherited (str ''toString''), [])"
  by (simp add: get_def vault_simps)

text \<open>
  \<open>getFor\<close> raises UnknownCredential when the pair has no definition and the key names
  no member of \<open>Object.prototype\<close>, whatever the options, the map and the environment;
  when a definition exists, \<open>getFor\<close> returns exactly what \<open>get\<close> returns for the key.
\<close>

lemma getFor_guard:
  "(credentialDefinition registry serviceId key = None \<and> key \<notin> set ObjectPrototype \<longrightarrow>
      isUnknownCredential serviceId key (getFor test registry penv this serviceId key))
 \<and> (credentialDefinition registry serviceId key \<noteq> None \<longrightarrow>
      getFor test registry penv this serviceId key = get test registry penv this key)"
  by (auto simp add: getFor_def isUnknownCredential_def getCredential_undefined
      getCredential_defined)

text \<open>
  Claim C4. For every pair of a service id and a key with no credential definition in
  the registry, \<open>getFor\<close> raises UnknownCredential. The code does so for the keys that
  name no member of \<open>Object.prototype\<close> (\<open>getFor_guard\<close>). The pair of \<open>demo\<close> and
  \<open>toString\<close> has no definition, \<open>getCredential\<close> returns the inherited function, the
  guard \<open>if (!credential)\<close> lets it pass, and \<open>getFor\<close> returns what \<open>get\<close> returns:
  no error is raised.
\<close>

theorem getFor_inherited_name:
  "credentialDefinition demo_registry (str ''demo'') (str ''toString'') = None
   \<and> getCredential demo_registry (str ''demo'') (str ''toString'')
       = Some (Inherited (str ''toString''))
   \<and> getFor literal_test demo_registry demo_env demo_vault (str ''demo'') (str ''toString'')
       = get literal_test demo_registry demo_env demo_vault (str ''toString'')
   \<and> getFor literal_test demo_registry demo_env demo_vault (str ''demo'') (str ''toString'')
       = Inr (Inherited (str ''toString''), [])"
  by (simp add: getFor_def get_def credentialDefinition_def vault_simps)

text \<open>
  Claim C6. In \<open>get\<close> the empty string counts as an absent value. An entry of the map
  that is the empty string gives the result of the map without the entry, so the
  process environment is consulted and its non-empty value is returned; a variable of
  the environment that is the empty string gives the result of a missing value, which
  is the result of the environment without the variable when the key names no member
  of \<open>Object.prototype\<close>; and when neither source yields a truthy value, \<open>get\<close> raises
  CredentialNotFound under \<open>throwOnMissing\<close>.
\<close>

theorem get_empty_is_absent:
  "(credentials this key = Some [] \<longrightarrow>
      get test registry penv this key
        = get test registry penv (this\<lparr>credentials := (credentials this)(key := None)\<rparr>) key)
 \<and> (\<not> truthy (credentials this key) \<and> penv key = Some [] \<longrightarrow>
      get test registry penv this key
        = (if throwOnMissing (options this) then Inl (Error (notFoundMessage registry key))
           else Inr (Own [], [])))
 \<and> (\<not> truthy (credentials this key) \<and> penv key = Some [] \<and> key \<notin> set ObjectPrototype \<longrightarrow>
      get test registry penv this key = get test registry (penv(key := None)) this key)
 \<and> (credentials this key = Some [] \<and> penv key = Some v \<and> v \<noteq> [] \<longrightarrow>
      (\<exists>ws. get test registry penv this key = Inr (Own v, ws)))
 \<and> (\<not> truthy (credentials this key) \<and> \<not> truthyValue (readProperty penv key)
      \<and> throwOnMissing (options this) \<longrightarrow>
      isCredentialNotFound key (get test registry penv this key))"
proof (intro conjI impI)
  assume "credentials this key = Some []"
  then show "get test registry penv this key
        = get test registry penv (this\<lparr>credentials := (credentials this)(key := None)\<rparr>) key"
    by (cases "readProperty penv key") (simp_all add: get_def truthyValue_def Let_def)
next
  assume h: "\<not> truthy (credentials this key) \<and> penv key = Some []"
  then have "\<not> truthyValue (readProperty penv key)"
    by (simp add: readProperty_def truthyValue_def)
  with h show "get test registry penv this key
        = (if throwOnMissing (options this) then Inl (Error (notFoundMessage registry key))
           else Inr (Own [], []))"
    by (simp add: get_missing)
next
  assume h: "\<not> truthy (credentials this key) \<and> penv key = Some []
      \<and> key \<notin> set ObjectPrototype"
  then have "\<not> truthyValue (readProperty penv key)"
    and "\<not> truthyValue (readProperty (penv(key := None)) key)"
    by (simp_all add: readProperty_def truthyValue_def)
  with h show "get test registry penv this key = get test registry (penv(key := None)) this key"
    by (simp add: get_missing)
next
  assume h: "credentials this key = Some [] \<and> penv key = Some v \<and> v \<noteq> []"
  then have "get test registry penv this key =
           Inr (Own v,
                if validate (options this) then validationWarnings test registry key (Own v)
                else [])"
    by (intro get_fallback) (simp_all add: truthy_def readProperty_def truthyValue_def)
  then show "\<exists>ws. get test registry penv this key = Inr (Own v, ws)" by blast
next
  assume "\<not> truthy (credentials this key) \<and> \<not> truthyValue (readProperty penv key)
      \<and> throwOnMissing (options this)"
  then show "isCredentialNotFound key (get test registry penv this key)"
    using notFoundMessage_prefix [of key registry]
    by (simp add: get_missing isCredentialNotFound_def)
qed

theorem get_empty_is_absent_witness:
  "credentials demo_vault (str ''EMPTY'') = Some []
   \<and> (\<exists>ws. get literal_test demo_registry demo_env demo_vault (str ''EMPTY'')
              = Inr (Own (str ''e''), ws))
   \<and> isCredentialNotFound (str ''EMPTY'')
        (get literal_test demo_registry [str ''EMPTY'' \<mapsto> []] demo_vault (str ''EMPTY''))"
proof -
  have stored: "credentials demo_vault (str ''EMPTY'') = Some []"
    by (simp add: demo_vault_def str_def)
  have ambient: "demo_env (str ''EMPTY'') = Some (str ''e'')" "str ''e'' \<noteq> []"
    by (simp_all add: demo_env_def str_def)
  have neither: "\<not> truthy (credentials demo_vault (str ''EMPTY''))"
    "\<not> truthyValue (readProperty [str ''EMPTY'' \<mapsto> []] (str ''EMPTY''))"
    "throwOnMissing (options demo_vault)"
    by (simp_all add: demo_vault_def str_def truthy_def truthyValue_def readProperty_def)
  from get_empty_is_absent
    [of demo_vault "str ''EMPTY''" literal_test demo_registry demo_env "str ''e''"]
    stored ambient
  have "\<exists>ws. get literal_test demo_registry demo_env demo_vault (str ''EMPTY'')
              = Inr (Own (str ''e''), ws)"
    by blast
  moreover from get_empty_is_absent
    [of demo_vault "str ''EMPTY''" literal_test demo_registry "[str ''EMPTY'' \<mapsto> []]" "[]"]
    neither
  have "isCredentialNotFound (str ''EMPTY'')
        (get literal_test demo_registry [str ''EMPTY'' \<mapsto> []] demo_vault (str ''EMPTY''))"
    by blast
  ultimately show ?thesis using stored by blast
qed

text \<open>
  Claim C7. For every key whose resolved value fails the format validation, \<open>get\<close>
  raises no error: it returns the resolved value, and the failure is the one line
  \<open>Warning: <diagnostic>\<close> written with \<open>console.warn\<close>. The resolved value is the
  map's when that is a non-empty string, and what \<open>process.env[key]\<close> yields otherwise.
\<close>

theorem get_validation_failure_warns:
  assumes "(if truthy (credentials this key) then map_option Own (credentials this key)
            else readProperty penv key) = Some val"
    and "truthyValue (Some val)"
    and "validate (options this)"
    and "findServiceByCredential registry key = Some serviceId"
    and "serviceId \<noteq> []"
    and "\<not> valid (validateCredential test registry serviceId key val)"
  shows "\<exists>e. error (validateCredential test registry serviceId key val) = Some e
           \<and> get test registry penv this key = Inr (val, [str ''Warning: '' @ e])"
proof -
  obtain e where e: "error (validateCredential test registry serviceId key val) = Some e"
    using validateCredential_error [OF assms(6)] by blast
  have w: "validationWarnings test registry key val = [str ''Warning: '' @ e]"
    using assms(4,5,6) e by (simp add: validationWarnings_def Let_def)
  have "get test registry penv this key = Inr (val, [str ''Warning: '' @ e])"
  proof (cases "truthy (credentials this key)")
    case True
    with assms(1) obtain v where v: "credentials this key = Some v" "val = Own v"
      by (cases "credentials this key") auto
    with True have "v \<noteq> []" by (simp add: truthy_def)
    with v show ?thesis using assms(3) w by (simp add: get_truthy_map)
  next
    case False
    with assms(1) have "readProperty penv key = Some val" by simp
    then show ?thesis using False assms(2,3) w by (simp add: get_fallback)
  qed
  with e show ?thesis by blast
qed

theorem get_validation_failure_warns_witness:
  "\<not> valid (validateCredential literal_test demo_registry (str ''demo'') (str ''DEMO_KEY'')
        (Own (str ''nope'')))
   \<and> get literal_test demo_registry [str ''DEMO_KEY'' \<mapsto> str ''nope'']
        (demo_vault\<lparr>credentials := Map.empty\<rparr>) (str ''DEMO_KEY'')
       = Inr (Own (str ''nope''),
              [str ''Warning: Invalid format for DEMO_KEY. Expected pattern: abc''])"
  using get_validation_failure_warns
    [of "demo_vault\<lparr>credentials := Map.empty\<rparr>" "str ''DEMO_KEY''"
      "[str ''DEMO_KEY'' \<mapsto> str ''nope'']" "Own (str ''nope'')" demo_registry "str ''demo''"
      literal_test]
  by (simp add: vault_simps)

text \<open>
  Claim C8. After \<open>set(key, v)\<close> with a non-empty \<open>v\<close>, such as \<open>set("X", "y")\<close>,
  \<open>get(key)\<close> returns \<open>v\<close>, whatever the map held for the key before (from the file) and
  whatever the process environment holds for it.
\<close>

theorem get_after_set:
  assumes "v \<noteq> []"
  shows "get test registry penv (set_credential this key v) key =
           Inr (Own v,
                if validate (options this) then validationWarnings test registry key (Own v)
                else [])"
  using assms by (simp add: get_truthy_map set_credential_def)

theorem get_after_set_witness:
  "credentials demo_vault (str ''X'') = Some (str ''z'')
   \<and> demo_env (str ''X'') = Some (str ''e'')
   \<and> get literal_test demo_registry demo_env
        (set_credential demo_vault (str ''X'') (str ''y'')) (str ''X'')
       = Inr (Own (str ''y''), [])"
  using get_after_set [of "str ''y''" literal_test demo_registry demo_env demo_vault "str ''X''"]
  by (simp add: vault_simps)

text \<open>
  Claim C10. There are a Vault state and a key for which \<open>has\<close> is true while \<open>get\<close>
  raises CredentialNotFound under \<open>throwOnMissing\<close>: \<open>has\<close> tests membership only, so
  every key stored with the empty string, for which \<open>process.env[key]\<close> yields no truthy
  value, is such a key.
\<close>

theorem has_true_get_not_found:
  "(\<exists>this' penv' key'.
       throwOnMissing (options this') \<and> has penv' this' key'
       \<and> isCredentialNotFound key' (get test registry penv' this' key'))
 \<and> (credentials this key = Some [] \<and> \<not> truthyValue (readProperty penv key)
      \<and> throwOnMissing (options this) \<longrightarrow>
      has penv this key \<and> isCredentialNotFound key (get test registry penv this key))"
proof -
  have general: "has penv0 this0 key0 \<and> isCredentialNotFound key0 (get test registry penv0 this0 key0)"
    if "credentials this0 key0 = Some []" and "\<not> truthyValue (readProperty penv0 key0)"
      and "throwOnMissing (options this0)"
    for this0 :: Vault and penv0 key0
    using that notFoundMessage_prefix [of key0 registry]
    by (simp add: has_def get_missing truthy_def isCredentialNotFound_def)
  have "throwOnMissing (options demo_vault) \<and> has Map.empty demo_vault (str ''EMPTY'')
        \<and> isCredentialNotFound (str ''EMPTY'')
             (get test registry Map.empty demo_vault (str ''EMPTY''))"
    using general [of demo_vault "str ''EMPTY''" Map.empty]
    by (simp add: demo_vault_def str_def truthyValue_def readProperty_def ObjectPrototype_def)
  then show ?thesis using general [of this key penv] by blast
qed

theorem has_true_get_not_found_witness:
  "has Map.empty demo_vault (str ''EMPTY'')
   \<and> isCredentialNotFound (str ''EMPTY'')
        (get literal_test demo_registry Map.empty demo_vault (str ''EMPTY''))"
  using has_true_get_not_found [of literal_test demo_registry demo_vault "str ''EMPTY''" Map.empty]
  by (simp add: demo_vault_def str_def truthyValue_def readProperty_def ObjectPrototype_def)

section \<open>The env file locator\<close>

text \<open>
  When the loop of \<open>dirname\<close> finds a separator, it finds it at a position from 1 to
  the start index, and below the start index when no other character was seen yet.
\<close>

lemma dirnameEnd_bounds:
  "dirnameEnd path n b \<noteq> - 1 \<Longrightarrow>
     1 \<le> dirnameEnd path n b \<and> dirnameEnd path n b \<le> int n
     \<and> (b \<longrightarrow> dirnameEnd path n b < int n)"
proof (induction n arbitrary: b)
  case 0
  then show ?case by simp
next
  case (Suc i)
  show ?case
  proof (cases "path ! Suc i = 0x2F")
    case True
    show ?thesis
    proof (cases b)
      case True
      with \<open>path ! Suc i = 0x2F\<close>
      have eq: "dirnameEnd path (Suc i) b = dirnameEnd path i True"
        by simp
      with Suc.prems have "dirnameEnd path i True \<noteq> - 1" by simp
      from Suc.IH [OF this] show ?thesis unfolding eq by simp
    next
      case False
      with \<open>path ! Suc i = 0x2F\<close> show ?thesis by simp
    qed
  next
    case False
    then have eq: "dirnameEnd path (Suc i) b = dirnameEnd path i False" by simp
    with Suc.prems have "dirnameEnd path i False \<noteq> - 1" by simp
    from Suc.IH [OF this] show ?thesis unfolding eq by simp
  qed
qed

text \<open>The parent directory is the directory itself, or smaller in \<open>dirMeasure\<close>.\<close>

lemma dirname_measure:
  assumes "dirname p \<noteq> p"
  shows "dirMeasure (dirname p) < dirMeasure p"
proof (cases "p = []")
  case True
  then show ?thesis by (simp add: dirname_def dirMeasure_def str_dot)
next
  case False
  define e where "e = dirnameEnd p (length p - 1) True"
  have dn: "dirname p =
      (if e = - 1 then (if p ! 0 = 0x2F then [0x2F] else [0x2E])
       else if p ! 0 = 0x2F \<and> e = 1 then [0x2F, 0x2F]
       else slice p 0 e)"
    using False unfolding dirname_def e_def Let_def str_dot str_slash str_slash2 by simp
  show ?thesis
  proof (cases "e = - 1")
    case True
    show ?thesis
    proof (cases "p ! 0 = 0x2F")
      case hasRoot: True
      have d: "dirname p = [0x2F]"
        using True hasRoot by (simp add: dn)
      with assms have "p \<noteq> [0x2F]" by auto
      with False hasRoot have "2 \<le> length p"
        by (cases p) (auto simp add: Suc_le_eq)
      with d show ?thesis by (auto simp add: dirMeasure_def str_dot)
    next
      case noRoot: False
      have d: "dirname p = [0x2E]"
        using True noRoot by (simp add: dn)
      with assms show ?thesis by (auto simp add: dirMeasure_def str_dot)
    qed
  next
    case found: False
    from dirnameEnd_bounds [of p "length p - 1" True] found
    have b: "1 \<le> e" "e < int (length p - 1)" by (simp_all add: e_def)
    then have len: "3 \<le> length p" by linarith
    then have pdot: "p \<noteq> str ''.''" by (auto simp add: str_dot)
    show ?thesis
    proof (cases "p ! 0 = 0x2F \<and> e = 1")
      case True
      have "dirname p = [0x2F, 0x2F]"
        using found True by (simp add: dn)
      with len pdot show ?thesis by (simp add: dirMeasure_def str_dot)
    next
      case other: False
      have "dirname p = slice p 0 e"
        using found other by (auto simp add: dn)
      moreover have "length (slice p 0 e) = nat e"
        using b by (simp add: slice_def clampIndex_def Let_def)
      moreover have "nat e < length p" using b by linarith
      ultimately show ?thesis using pdot by (simp add: dirMeasure_def)
    qed
  qed
qed

lemma findEnvFileFrom_total:
  "\<exists>p. findEnvFileFrom join fsys cwd dir = Some p"
proof (induction dir rule: measure_induct_rule [of dirMeasure])
  case (less dir)
  show ?case
  proof (cases "existsSync fsys (join dir (str ''.env'')) \<or> dirname dir = dir")
    case True
    then show ?thesis by (subst findEnvFileFrom.simps) auto
  next
    case False
    then have "dirMeasure (dirname dir) < dirMeasure dir" by (simp add: dirname_measure)
    from less.IH [OF this]
    obtain p where "findEnvFileFrom join fsys cwd (dirname dir) = Some p" ..
    with False show ?thesis by (subst findEnvFileFrom.simps) simp
  qed
qed

lemma findEnvFileFrom_default:
  "(\<And>n. \<not> existsSync fsys (join ((dirname ^^ n) dir) (str ''.env''))) \<Longrightarrow>
     findEnvFileFrom join fsys cwd dir = Some (join cwd (str ''.env''))"
proof (induction dir rule: measure_induct_rule [of dirMeasure])
  case (less dir)
  from less.prems [of 0] have no: "\<not> existsSync fsys (join dir (str ''.env''))" by simp
  show ?case
  proof (cases "dirname dir = dir")
    case True
    with no show ?thesis by (subst findEnvFileFrom.simps) simp
  next
    case False
    then have m: "dirMeasure (dirname dir) < dirMeasure dir" by (simp add: dirname_measure)
    have "\<not> existsSync fsys (join ((dirname ^^ n) (dirname dir)) (str ''.env''))" for n
      using less.prems [of "Suc n"] by (simp add: funpow_swap1)
    from less.IH [OF m this] no False show ?thesis
      by (subst findEnvFileFrom.simps) simp
  qed
qed

lemma findEnvFileFrom_nearest:
  "existsSync fsys (join ((dirname ^^ n) dir) (str ''.env'')) \<Longrightarrow>
   (\<And>m. m < n \<Longrightarrow> \<not> existsSync fsys (join ((dirname ^^ m) dir) (str ''.env''))) \<Longrightarrow>
     findEnvFileFrom join fsys cwd dir = Some (join ((dirname ^^ n) dir) (str ''.env''))"
proof (induction n arbitrary: dir)
  case 0
  then show ?case by (subst findEnvFileFrom.simps) simp
next
  case (Suc n)
  from Suc.prems(2) [of 0] have no: "\<not> existsSync fsys (join dir (str ''.env''))" by simp
  have step: "dirname dir \<noteq> dir"
  proof
    assume root: "dirname dir = dir"
    have "(dirname ^^ k) dir = dir" for k by (induction k) (simp_all add: root)
    then have "(dirname ^^ Suc n) dir = dir" .
    with Suc.prems(1) no show False by metis
  qed
  have here: "existsSync fsys (join ((dirname ^^ n) (dirname dir)) (str ''.env''))"
    using Suc.prems(1) by (simp add: funpow_swap1)
  have before: "m < n \<Longrightarrow>
      \<not> existsSync fsys (join ((dirname ^^ m) (dirname dir)) (str ''.env''))" for m
    using Suc.prems(2) [of "Suc m"] by (simp add: funpow_swap1)
  from Suc.IH [OF here before] no step show ?case
    by (subst findEnvFileFrom.simps) (simp add: funpow_swap1)
qed

lemma dirname_demo: "dirname (str ''/w/skill'') = str ''/w''"
  by code_simp

lemma dirname_examples:
  "dirname (str ''/a/b/c'') = str ''/a/b''"
  "dirname (str ''/a'') = str ''/''"
  "dirname (str ''/'') = str ''/''"
  "dirname (str ''a'') = str ''.''"
  "dirname (str ''.'') = str ''.''"
  by code_simp+

text \<open>
  Claim C9. For every starting directory and every state of the file system the
  locator returns. It returns the path of \<open>.env\<close> in the nearest directory of the chain
  of parents that has one, and \<open>path.join(cwd, ".env")\<close> when no directory of the chain
  up to the root has one.
\<close>

theorem findEnvFile_terminates:
  "(\<exists>p. findEnvFile join fsys cwd = Some p)
 \<and> ((\<forall>n. \<not> existsSync fsys (join ((dirname ^^ n) cwd) (str ''.env''))) \<longrightarrow>
      findEnvFile join fsys cwd = Some (join cwd (str ''.env'')))
 \<and> (\<forall>n. existsSync fsys (join ((dirname ^^ n) cwd) (str ''.env''))
        \<and> (\<forall>m<n. \<not> existsSync fsys (join ((dirname ^^ m) cwd) (str ''.env''))) \<longrightarrow>
      findEnvFile join fsys cwd = Some (join ((dirname ^^ n) cwd) (str ''.env'')))"
  unfolding findEnvFile_def
  using findEnvFileFrom_total [of join fsys cwd cwd]
    findEnvFileFrom_default [of fsys join cwd cwd]
    findEnvFileFrom_nearest [of fsys join _ cwd cwd]
  by blast

theorem findEnvFile_terminates_witness:
  "findEnvFile demo_join \<lparr>existsSync = (\<lambda>p. False), readFileSync = (\<lambda>p. Inr [])\<rparr>
     (str ''/w/skill'')
     = Some (str ''/w/skill/.env'')
   \<and> findEnvFile demo_join demo_fs (str ''/w/skill'') = Some (str ''/w/.env'')"
proof -
  let ?none = "\<lparr>existsSync = (\<lambda>p. False), readFileSync = (\<lambda>p. Inr [])\<rparr>"
  have a: "findEnvFile demo_join ?none (str ''/w/skill'')
             = Some (demo_join (str ''/w/skill'') (str ''.env''))"
    using findEnvFile_terminates [of demo_join ?none "str ''/w/skill''"] by simp
  have one: "(dirname ^^ 1) (str ''/w/skill'') = str ''/w''"
    by (simp add: dirname_demo)
  have "existsSync demo_fs (demo_join ((dirname ^^ 1) (str ''/w/skill'')) (str ''.env''))
     \<and> (\<forall>m<1. \<not> existsSync demo_fs
           (demo_join ((dirname ^^ m) (str ''/w/skill'')) (str ''.env'')))"
    unfolding one by (simp add: demo_fs_def demo_join_def str_def)
  then have b: "findEnvFile demo_join demo_fs (str ''/w/skill'')
             = Some (demo_join ((dirname ^^ 1) (str ''/w/skill'')) (str ''.env''))"
    using findEnvFile_terminates [of demo_join demo_fs "str ''/w/skill''"] by blast
  have c: "demo_join (str ''/w/skill'') (str ''.env'') = str ''/w/skill/.env''"
    "demo_join (str ''/w'') (str ''.env'') = str ''/w/.env''"
    by (simp_all add: demo_join_def str_def)
  from a b show ?thesis unfolding one c by simp
qed

text \<open>
  The constructor, from \<open>/w/skill\<close> and with no option given, finds \<open>/w/.env\<close>, reads it
  and builds the instance of the examples, with both flags true.
\<close>

lemma new_Vault_demo:
  "new_Vault demo_join demo_fs (str ''/w/skill'')
     \<lparr>VaultOptions.envPath = None, VaultOptions.throwOnMissing = None,
      VaultOptions.validate = None\<rparr>
   = Some (Inr demo_vault)"
proof -
  have one: "(dirname ^^ 1) (str ''/w/skill'') = str ''/w''"
    by (simp add: dirname_demo)
  have j: "demo_join (str ''/w'') (str ''.env'') = str ''/w/.env''"
    by (simp add: demo_join_def str_def)
  have here: "existsSync demo_fs (demo_join ((dirname ^^ 1) (str ''/w/skill'')) (str ''.env''))"
    unfolding one j by (simp add: demo_fs_def)
  have before: "m < 1 \<Longrightarrow> \<not> existsSync demo_fs
      (demo_join ((dirname ^^ m) (str ''/w/skill'')) (str ''.env''))" for m
    by (simp add: demo_fs_def demo_join_def str_def)
  have found: "findEnvFile demo_join demo_fs (str ''/w/skill'') = Some (str ''/w/.env'')"
    unfolding findEnvFile_def
    using findEnvFileFrom_nearest [of demo_fs demo_join 1 "str ''/w/skill''" "str ''/w/skill''",
        OF here before]
    unfolding one j by simp
  have loaded: "loadEnv demo_fs
      \<lparr>credentials = Map.empty,
       options = \<lparr>envPath = str ''/w/.env'', throwOnMissing = True, validate = True\<rparr>\<rparr>
      = Inr demo_vault"
    by (simp add: loadEnv_def demo_fs_def parseEnv_demo) (simp add: demo_vault_def)
  show ?thesis
    by (simp add: new_Vault_def found loaded)
qed

text \<open>The constructor returns, with an instance or with the error of the file read.\<close>

lemma new_Vault_returns:
  "\<exists>r. new_Vault join fsys cwd opts = Some r"
  using findEnvFileFrom_total [of join fsys cwd cwd]
  by (auto simp add: new_Vault_def findEnvFile_def split: option.split)

end
